theory Spec2Isabelle
  imports Complex_Main "HOL-Library.List_Lexorder" "HOL-Library.Char_ord"
begin

section \<open>Tables and column operations\<close>

text \<open>
  The backend (\<^verbatim>\<open>dashboard-backend/app/main.py\<close>) loads CSV files into pandas data
  frames and computes its analyses from them. A data frame is modelled as the list of its
  rows, a row as a record of the columns the analyses read (the type parameter is the
  type of the cells of the time column: text in the file, a timestamp once loaded). A
  float cell is a real number (arithmetic is exact: rounding errors of IEEE doubles are not
  modelled, and a cell is never missing). The NaN that pandas returns for the mean of an
  empty column is \<open>None\<close>.
  A timestamp is an integer (nanoseconds since the epoch, the resolution of a pandas
  \<^verbatim>\<open>Timestamp\<close>); the \<^verbatim>\<open>NaT\<close> that \<^verbatim>\<open>errors='coerce'\<close> produces is
  \<open>None\<close>.
\<close>

type_synonym timestamp = int

record 't scada_cells =
  Wind_turbine_name :: string
  Date_time :: 't
  P_avg :: real
  Ws_avg :: real
  Wa_avg :: real
  Va_avg :: real

record 't era5_cells =
  datetime :: 't
  ws_100m :: real

record 't plant_cells =
  time_utc :: 't
  net_energy_kwh :: real
  availability_kwh :: real
  curtailment_kwh :: real

text \<open>The rows of the loaded tables: the time column holds a timestamp or
  \<^verbatim>\<open>NaT\<close>.\<close>

type_synonym scada_row = "timestamp option scada_cells"
type_synonym era5_row = "timestamp option era5_cells"
type_synonym plant_row = "timestamp option plant_cells"

text \<open>\<^verbatim>\<open>Series.sum()\<close> (0 on an empty column) and \<^verbatim>\<open>Series.mean()\<close> (NaN on an
  empty column).\<close>

definition series_sum :: "real list \<Rightarrow> real" where
  "series_sum xs = sum_list xs"

definition series_mean :: "real list \<Rightarrow> real option" where
  "series_mean xs = (if xs = [] then None else Some (sum_list xs / real (length xs)))"

text \<open>\<^verbatim>\<open>Series.min()\<close> and \<^verbatim>\<open>Series.max()\<close> of a timestamp column skip
  \<^verbatim>\<open>NaT\<close> and are \<^verbatim>\<open>NaT\<close> when nothing is left.\<close>

definition valid_times :: "timestamp option list \<Rightarrow> timestamp list" where
  "valid_times ts = concat (map (\<lambda>t. case t of None \<Rightarrow> [] | Some v \<Rightarrow> [v]) ts)"

definition ts_min :: "timestamp option list \<Rightarrow> timestamp option" where
  "ts_min ts = (case valid_times ts of [] \<Rightarrow> None | v # vs \<Rightarrow> Some (fold min vs v))"

definition ts_max :: "timestamp option list \<Rightarrow> timestamp option" where
  "ts_max ts = (case valid_times ts of [] \<Rightarrow> None | v # vs \<Rightarrow> Some (fold max vs v))"

text \<open>A comparison with \<^verbatim>\<open>NaT\<close> on either side is false.\<close>

fun ts_ge :: "timestamp option \<Rightarrow> timestamp option \<Rightarrow> bool" where
  "ts_ge (Some a) (Some b) = (b \<le> a)"
| "ts_ge _ _ = False"

fun ts_le :: "timestamp option \<Rightarrow> timestamp option \<Rightarrow> bool" where
  "ts_le (Some a) (Some b) = (a \<le> b)"
| "ts_le _ _ = False"

section \<open>Long-term correction\<close>

text \<open>
  What a Python float expression evaluates to: a float, NaN, or (for a negative base
  raised to the power 2.5) a complex number.
\<close>

datatype py_number = Float real | NaN | Complex

definition pow_2_5 :: "real \<Rightarrow> py_number" where
  "pow_2_5 x = (if x < 0 then Complex else Float (x powr (5 / 2)))"

text \<open>
  \<^verbatim>\<open>(ltm_ws / op_period_ws) ** 2.5 if op_period_ws > 0 else 1.0\<close>
  (\<^verbatim>\<open>run_aep_analysis\<close>, and \<^verbatim>\<open>run_turbine_gross_energy_analysis\<close> with the
  names \<^verbatim>\<open>era5_ltm_ws\<close>, \<^verbatim>\<open>era5_op_ws\<close>). A NaN operand compares false
  with 0.
\<close>

definition correction_factor :: "real option \<Rightarrow> real option \<Rightarrow> py_number" where
  "correction_factor ltm_ws op_period_ws =
     (case op_period_ws of
        None \<Rightarrow> Float 1
      | Some op \<Rightarrow>
          if 0 < op then (case ltm_ws of None \<Rightarrow> NaN | Some ltm \<Rightarrow> pow_2_5 (ltm / op))
          else Float 1)"

text \<open>
  The rows of the reanalysis table inside the operational period:
  \<^verbatim>\<open>era5_df[(era5_df['datetime'] >= op_start) & (era5_df['datetime'] <= op_end)]\<close>.
\<close>

definition era5_op_period :: "timestamp option \<Rightarrow> timestamp option \<Rightarrow> era5_row list \<Rightarrow> era5_row list" where
  "era5_op_period op_start op_end era5_df =
     filter (\<lambda>r. ts_ge (datetime r) op_start \<and> ts_le (datetime r) op_end) era5_df"

text \<open>
  The estimator, as both analyses write it inline: the operational mean (with its fallback
  to the mean of the whole table), the long-term mean and the factor.
\<close>

definition long_term_correction ::
  "timestamp option \<Rightarrow> timestamp option \<Rightarrow> era5_row list \<Rightarrow> real option \<times> real option \<times> py_number" where
  "long_term_correction op_start op_end era5_df =
     (let era5_op = era5_op_period op_start op_end era5_df;
          op_period_ws = (if length era5_op > 0 then series_mean (map ws_100m era5_op)
                          else series_mean (map ws_100m era5_df));
          ltm_ws = series_mean (map ws_100m era5_df);
          ltm_correction_factor = correction_factor ltm_ws op_period_ws
      in (op_period_ws, ltm_ws, ltm_correction_factor))"

section \<open>Numeric helpers\<close>

text \<open>The mean of a column that the code has made sure is not empty (a group of a
  \<^verbatim>\<open>groupby\<close>, a sector that passed its minimum count).\<close>

definition mean_of :: "real list \<Rightarrow> real" where
  "mean_of xs = sum_list xs / real (length xs)"

text \<open>\<^verbatim>\<open>Series.max()\<close>: NaN on an empty column.\<close>

fun series_max :: "real list \<Rightarrow> real option" where
  "series_max [] = None"
| "series_max (x # xs) = Some (fold max xs x)"

text \<open>\<^verbatim>\<open>Series.idxmax()\<close>: the position of the first maximal entry (pandas
  raises on an empty column; the analyses call it on non-empty columns only).\<close>

fun idxmax :: "real list \<Rightarrow> nat" where
  "idxmax (x # xs) = length (takeWhile (\<lambda>y. y \<noteq> fold max xs x) (x # xs))"

text \<open>
  Python's \<^verbatim>\<open>round(x, n)\<close>: to \<open>n\<close> decimals, a tie going to the even neighbour.
\<close>

definition py_round :: "real \<Rightarrow> nat \<Rightarrow> real" where
  "py_round x n =
     (let s = x * 10 ^ n; f = \<lfloor>s\<rfloor>; d = s - of_int f
      in (if d < 1 / 2 then of_int f
          else if 1 / 2 < d then of_int (f + 1)
          else if even f then of_int f else of_int (f + 1)) / 10 ^ n)"

text \<open>
  \<^verbatim>\<open>numpy.arange(start, stop, step)\<close> for a positive step: the values
  \<open>start + i * step\<close> for \<open>i < \<lceil>(stop - start) / step\<rceil>\<close>.
\<close>

definition np_arange :: "real \<Rightarrow> real \<Rightarrow> real \<Rightarrow> real list" where
  "np_arange start stop step =
     map (\<lambda>i. start + real i * step) [0..<nat \<lceil>(stop - start) / step\<rceil>]"

section \<open>Value bins: \<^verbatim>\<open>pandas.cut\<close>\<close>

text \<open>
  \<^verbatim>\<open>bins.searchsorted(x, side='left')\<close> on ascending edges: the number of edges
  below \<open>x\<close>.
\<close>

definition searchsorted_left :: "real list \<Rightarrow> real \<Rightarrow> nat" where
  "searchsorted_left bins x = length (filter (\<lambda>b. b < x) bins)"

text \<open>
  \<^verbatim>\<open>pandas.cut(x, bins=bins, include_lowest=...)\<close> with its default
  \<^verbatim>\<open>right=True\<close>, for a sequence of edges: pandas computes
  \<^verbatim>\<open>ids = bins.searchsorted(x, side='left')\<close>, sets \<^verbatim>\<open>ids\<close> to 1 where
  \<^verbatim>\<open>x == bins[0]\<close> if \<^verbatim>\<open>include_lowest\<close>, and yields no bin (NaN) where
  \<^verbatim>\<open>ids == 0\<close> or \<^verbatim>\<open>ids == len(bins)\<close>. The result here is the position
  \<open>ids - 1\<close> of the interval among the intervals.
\<close>

definition pd_cut :: "real list \<Rightarrow> bool \<Rightarrow> real \<Rightarrow> nat option" where
  "pd_cut bins include_lowest x =
     (let ids = (if include_lowest \<and> bins \<noteq> [] \<and> x = hd bins then 1
                 else searchsorted_left bins x)
      in if ids = 0 \<or> ids = length bins then None else Some (ids - 1))"

text \<open>With \<^verbatim>\<open>labels=bins[:-1]\<close> the category of a value is the lower edge of its
  interval.\<close>

definition pd_cut_labelled :: "real list \<Rightarrow> bool \<Rightarrow> real \<Rightarrow> real option" where
  "pd_cut_labelled bins include_lowest x =
     map_option (\<lambda>i. butlast bins ! i) (pd_cut bins include_lowest x)"

text \<open>
  \<^verbatim>\<open>df.groupby(cut, observed=True)\<close>: the groups of the rows by interval, in the
  order of the intervals, without the intervals that hold no row. A row with no interval
  is in no group.
\<close>

definition groupby_cut :: "real list \<Rightarrow> ('r \<Rightarrow> real) \<Rightarrow> 'r list \<Rightarrow> 'r list list" where
  "groupby_cut bins col df =
     filter (\<lambda>g. g \<noteq> [])
       (map (\<lambda>i. filter (\<lambda>r. pd_cut bins False (col r) = Some i) df) [0..<length bins - 1])"


text \<open>\<^verbatim>\<open>sorted(scada_df['Wind_turbine_name'].unique())\<close>.\<close>

definition turbine_names :: "scada_row list \<Rightarrow> string list" where
  "turbine_names scada_df = sort (remdups (map Wind_turbine_name scada_df))"

section \<open>Power curve (\<^verbatim>\<open>get_power_curve_data\<close>)\<close>



definition power_curve_bins :: "real \<Rightarrow> real list" where
  "power_curve_bins bin_width = np_arange 0 (30 + bin_width) bin_width"


section \<open>Wind rose (\<^verbatim>\<open>get_wind_rose_data\<close>)\<close>



definition rose_direction_bins :: "real list" where
  "rose_direction_bins = np_arange 0 361 (45 / 2)"


section \<open>Energy totals\<close>

text \<open>\<^verbatim>\<open>run_aep_analysis\<close>: \<^verbatim>\<open>total_energy_kwh = float(scada_df['P_avg'].sum())\<close>.\<close>

definition total_energy_kwh :: "scada_row list \<Rightarrow> real" where
  "total_energy_kwh scada_df = series_sum (map P_avg scada_df)"

text \<open>\<^verbatim>\<open>run_electrical_losses_analysis\<close>:
  \<^verbatim>\<open>turbine_energy_kwh = float(scada_df['P_avg'].sum()) * (10/60)\<close>, under the comment
  ``P\_avg is power in kW, data is 10-min intervals, so energy = P * (10/60) kWh per
  record''.\<close>

definition turbine_energy_kwh :: "scada_row list \<Rightarrow> real" where
  "turbine_energy_kwh scada_df = series_sum (map P_avg scada_df) * (10 / 60)"

definition meter_energy_kwh :: "plant_row list \<Rightarrow> real" where
  "meter_energy_kwh plant_df = series_sum (map net_energy_kwh plant_df)"

text \<open>\<^verbatim>\<open>run_turbine_gross_energy_analysis\<close>, per turbine: the rows in normal operation
  and \<^verbatim>\<open>operational_energy_kwh = float(normal_df['P_avg'].sum()) * (10/60)\<close>.\<close>

definition normal_df :: "scada_row list \<Rightarrow> scada_row list" where
  "normal_df t_df = filter (\<lambda>r. P_avg r > 10 \<and> Ws_avg r \<ge> 3 \<and> Ws_avg r \<le> 25) t_df"

definition operational_energy_kwh :: "scada_row list \<Rightarrow> real" where
  "operational_energy_kwh t_df = series_sum (map P_avg (normal_df t_df)) * (10 / 60)"

section \<open>Wake losses (\<^verbatim>\<open>run_wake_losses_analysis\<close>)\<close>

definition wake_direction_bins :: "real list" where
  "wake_direction_bins = np_arange 0 361 30"

text \<open>\<^verbatim>\<open>dir_df.groupby('Wind_turbine_name').agg({'P_avg': 'mean', 'Ws_avg': 'mean'})\<close>:
  one row per turbine of the sector, in the order of the names.\<close>

definition turbine_perf :: "scada_row list \<Rightarrow> (string \<times> real \<times> real) list" where
  "turbine_perf dir_df =
     map (\<lambda>t. let g = filter (\<lambda>r. Wind_turbine_name r = t) dir_df
              in (t, mean_of (map P_avg g), mean_of (map Ws_avg g)))
       (sort (remdups (map Wind_turbine_name dir_df)))"

text \<open>
  \<^verbatim>\<open>turbine_perf['P_avg'] / (turbine_perf['Ws_avg'] ** 3 + 0.1)\<close>. Where the divisor
  is 0 numpy yields an infinity or NaN instead of raising; that outcome is \<open>None\<close>, and
  the arithmetic on it is not modelled further.
\<close>

definition normalized_power :: "real \<Rightarrow> real \<Rightarrow> real option" where
  "normalized_power p ws = (if ws ^ 3 + 1 / 10 = 0 then None else Some (p / (ws ^ 3 + 1 / 10)))"

text \<open>
  \<^verbatim>\<open>wake_loss = (max_norm - avg_norm) / max_norm * 100 if max_norm > 0 else 0\<close>,
  from the normalized powers of the turbines of one sector.
\<close>

definition wake_loss :: "real list \<Rightarrow> real" where
  "wake_loss norms =
     (case series_max norms of
        None \<Rightarrow> 0
      | Some max_norm \<Rightarrow>
          let avg_norm = mean_of norms
          in if max_norm > 0 then (max_norm - avg_norm) / max_norm * 100 else 0)"

definition sector_normalized_power :: "scada_row list \<Rightarrow> real list option" where
  "sector_normalized_power dir_df =
     those (map (\<lambda>(t, p, ws). normalized_power p ws) (turbine_perf dir_df))"

record direction_loss =
  direction_center_deg :: int
  wake_loss_percent :: "real option"
  sample_count :: nat
  avg_wind_speed_ms :: real

text \<open>
  The loop over the sectors: a sector with fewer than 100 rows is skipped, and a sector
  whose rows belong to a single turbine emits nothing. \<^verbatim>\<open>wake_loss_percent\<close> is the
  loss rounded to two decimals (\<open>None\<close> when a normalized power is not finite). The
  fields \<^verbatim>\<open>direction_range\<close>, \<^verbatim>\<open>best_turbine\<close> and \<^verbatim>\<open>worst_turbine\<close> are
  left out.
\<close>

definition sector_rows :: "real \<Rightarrow> scada_row list \<Rightarrow> scada_row list" where
  "sector_rows dir_center scada_df =
     filter (\<lambda>r. pd_cut_labelled wake_direction_bins True (Wa_avg r) = Some dir_center) scada_df"

definition sector_entry :: "real \<Rightarrow> scada_row list \<Rightarrow> direction_loss list" where
  "sector_entry dir_center scada_df =
     (let dir_df = sector_rows dir_center scada_df
      in if length dir_df < 100 then []
         else if length (turbine_perf dir_df) > 1
         then [\<lparr>direction_center_deg = \<lfloor>dir_center\<rfloor>,
                wake_loss_percent =
                  map_option (\<lambda>norms. py_round (wake_loss norms) 2) (sector_normalized_power dir_df),
                sample_count = length dir_df,
                avg_wind_speed_ms = py_round (mean_of (map Ws_avg dir_df)) 2\<rparr>]
         else [])"

definition direction_losses :: "scada_row list \<Rightarrow> direction_loss list" where
  "direction_losses scada_df =
     concat (map (\<lambda>dir_center. sector_entry dir_center scada_df) (butlast wake_direction_bins))"

section \<open>Yaw misalignment (\<^verbatim>\<open>run_yaw_misalignment_analysis\<close>)\<close>

definition yaw_filter :: "scada_row list \<Rightarrow> scada_row list" where
  "yaw_filter t_df = filter (\<lambda>r. P_avg r > 100 \<and> Ws_avg r \<ge> 5 \<and> Ws_avg r \<le> 10) t_df"

definition vane_bins :: "real list" where
  "vane_bins = np_arange (- 30) 31 2"

record vane_bin =
  vane_power_mean :: real
  vane_count :: nat
  vane_mean :: real
  ws_mean :: real

text \<open>The table \<^verbatim>\<open>vane_power\<close>: the observed vane bins with their statistics, those
  with fewer than 50 rows removed.\<close>

definition vane_power :: "scada_row list \<Rightarrow> vane_bin list" where
  "vane_power t_df =
     filter (\<lambda>b. vane_count b \<ge> 50)
       (map (\<lambda>g. \<lparr>vane_power_mean = mean_of (map P_avg g), vane_count = length g,
                   vane_mean = mean_of (map Va_avg g), ws_mean = mean_of (map Ws_avg g)\<rparr>)
          (groupby_cut vane_bins Va_avg t_df))"

text \<open>\<^verbatim>\<open>vane_power['power_mean'] / (vane_power['ws_mean'] ** 3 + 0.1)\<close>; the divisor is
  at least 125.1, the rows being filtered to wind speeds from 5 to 10 m/s.\<close>

definition norm_power :: "vane_bin \<Rightarrow> real" where
  "norm_power b = vane_power_mean b / (ws_mean b ^ 3 + 1 / 10)"

record yaw_result =
  turbine_id :: string
  yaw_misalignment_deg :: real
  optimal_vane_position_deg :: real
  yaw_sample_count :: nat
  vane_power_curve :: "(real \<times> real \<times> nat) list"

text \<open>
  The body of the loop for one turbine: nothing is appended for a turbine with fewer than
  1000 filtered rows (\<^verbatim>\<open>continue\<close>), nor for one with at most three vane bins left.
  The fields \<^verbatim>\<open>estimated_energy_loss_percent\<close> and \<^verbatim>\<open>recommendation\<close> are left
  out.
\<close>

definition yaw_turbine :: "string \<Rightarrow> scada_row list \<Rightarrow> yaw_result list" where
  "yaw_turbine turbine scada_df =
     (let t_df = yaw_filter (filter (\<lambda>r. Wind_turbine_name r = turbine) scada_df)
      in if length t_df < 1000 then []
         else
           let vp = vane_power t_df
           in if length vp > 3
              then
                let optimal_idx = idxmax (map norm_power vp);
                    optimal_vane = vane_mean (vp ! optimal_idx);
                    misalignment = - optimal_vane
                in [\<lparr>turbine_id = turbine,
                      yaw_misalignment_deg = py_round misalignment 1,
                      optimal_vane_position_deg = py_round optimal_vane 1,
                      yaw_sample_count = length t_df,
                      vane_power_curve =
                        map (\<lambda>b. (py_round (vane_mean b) 1, py_round (vane_power_mean b) 1, vane_count b)) vp\<rparr>]
              else [])"

definition yaw_turbine_results :: "scada_row list \<Rightarrow> yaw_result list" where
  "yaw_turbine_results scada_df =
     concat (map (\<lambda>turbine. yaw_turbine turbine scada_df) (turbine_names scada_df))"

section \<open>Example tables\<close>







text \<open>Three rows of turbine T1 with powers 100, 200 and 300 kW at 10-minute spacing.\<close>

definition three_rows :: "scada_row list" where
  "three_rows =
     [\<lparr>Wind_turbine_name = ''T1'', Date_time = Some 0, P_avg = 100, Ws_avg = 6, Wa_avg = 10, Va_avg = 0\<rparr>,
      \<lparr>Wind_turbine_name = ''T1'', Date_time = Some 600000000000, P_avg = 200, Ws_avg = 6, Wa_avg = 10, Va_avg = 0\<rparr>,
      \<lparr>Wind_turbine_name = ''T1'', Date_time = Some 1200000000000, P_avg = 300, Ws_avg = 6, Wa_avg = 10, Va_avg = 0\<rparr>]"

section \<open>Loading the datasets\<close>

text \<open>
  What the backend can raise: the built-in exceptions of the loaders and of pandas, and
  the \<^verbatim>\<open>HTTPException(status_code=400)\<close> that \<^verbatim>\<open>run_analysis\<close> raises for an
  unknown analysis type.
\<close>

datatype py_exception =
  FileNotFoundError string
| ParserError
| KeyError string
| ValueError
| ZeroDivisionError
| UnknownAnalysis string

text \<open>
  A cell of the time column of a file, as \<^verbatim>\<open>pandas.to_datetime\<close> reads it: text that
  parses to a timestamp, or text that does not parse.
\<close>

datatype time_text = Timestamp_text timestamp | Unparseable_text

datatype errors_mode = Raise | Coerce

text \<open>
  \<^verbatim>\<open>pandas.to_datetime(column, errors=...)\<close>: with \<^verbatim>\<open>errors='raise'\<close> a cell that
  does not parse raises \<^verbatim>\<open>ValueError\<close>; with \<^verbatim>\<open>errors='coerce'\<close> it becomes
  \<^verbatim>\<open>NaT\<close>. The result is in UTC without a zone, as after
  \<^verbatim>\<open>dt.tz_localize(None)\<close>.
\<close>

definition to_datetime :: "errors_mode \<Rightarrow> time_text list \<Rightarrow> py_exception + timestamp option list" where
  "to_datetime errors col =
     (if errors = Raise \<and> Unparseable_text \<in> set col then Inl ValueError
      else Inr (map (\<lambda>c. case c of Timestamp_text t \<Rightarrow> Some t | Unparseable_text \<Rightarrow> None) col))"

text \<open>
  A file on disk is given by what \<^verbatim>\<open>pandas.read_csv\<close> makes of it: a parse error,
  or a frame with its column names and rows. Of the columns only the time column is
  looked up by a loader; the analyses take the other columns of a row as present.
\<close>

record 'row data_frame =
  columns :: "string list"
  frame_rows :: "'row list"

datatype 'row csv_file = Malformed | Csv "'row data_frame"

definition read_csv :: "'row csv_file \<Rightarrow> py_exception + 'row data_frame" where
  "read_csv f = (case f of Malformed \<Rightarrow> Inl ParserError | Csv df \<Rightarrow> Inr df)"

type_synonym asset_row = "(string \<times> string) list"

text \<open>The five files under \<^verbatim>\<open>examples/data/la_haute_borne\<close>; \<open>None\<close> is a file
  that does not exist. The MERRA2 table has the shape of the ERA5 table (its wind speed
  column is \<^verbatim>\<open>ws_50m\<close>).\<close>

record data_files =
  scada_file :: "time_text scada_cells csv_file option"
  plant_file :: "time_text plant_cells csv_file option"
  asset_file :: "asset_row csv_file option"
  era5_file :: "time_text era5_cells csv_file option"
  merra2_file :: "time_text era5_cells csv_file option"

text \<open>\<^verbatim>\<open>df[column] = pd.to_datetime(df[column], errors='coerce')\<close> on the rows of a
  frame, for each of the three row types.\<close>

definition scada_with_times :: "time_text scada_cells list \<Rightarrow> timestamp option list \<Rightarrow> scada_row list" where
  "scada_with_times rows parsed =
     map2 (\<lambda>r t. \<lparr>Wind_turbine_name = Wind_turbine_name r, Date_time = t, P_avg = P_avg r,
                    Ws_avg = Ws_avg r, Wa_avg = Wa_avg r, Va_avg = Va_avg r\<rparr>) rows parsed"

definition plant_with_times :: "time_text plant_cells list \<Rightarrow> timestamp option list \<Rightarrow> plant_row list" where
  "plant_with_times rows parsed =
     map2 (\<lambda>r t. \<lparr>time_utc = t, net_energy_kwh = net_energy_kwh r,
                    availability_kwh = availability_kwh r, curtailment_kwh = curtailment_kwh r\<rparr>)
       rows parsed"

definition era5_with_times :: "time_text era5_cells list \<Rightarrow> timestamp option list \<Rightarrow> era5_row list" where
  "era5_with_times rows parsed = map2 (\<lambda>r t. \<lparr>datetime = t, ws_100m = ws_100m r\<rparr>) rows parsed"

text \<open>
  The loaders. Each checks \<^verbatim>\<open>os.path.exists\<close> first and raises
  \<^verbatim>\<open>FileNotFoundError\<close>; then \<^verbatim>\<open>pd.read_csv\<close> may raise; then the time column
  is looked up (\<^verbatim>\<open>KeyError\<close> when the frame has no such column) and converted with
  \<^verbatim>\<open>errors='coerce'\<close>. \<^verbatim>\<open>load_asset_data\<close> looks up no column.
\<close>

definition load_scada_data :: "data_files \<Rightarrow> py_exception + scada_row list" where
  "load_scada_data files =
     (case scada_file files of
        None \<Rightarrow> Inl (FileNotFoundError ''la-haute-borne-data-2014-2015.csv'')
      | Some f \<Rightarrow>
          (case read_csv f of
             Inl e \<Rightarrow> Inl e
           | Inr df \<Rightarrow>
               if ''Date_time'' \<notin> set (columns df) then Inl (KeyError ''Date_time'')
               else (case to_datetime Coerce (map Date_time (frame_rows df)) of
                       Inl e \<Rightarrow> Inl e
                     | Inr parsed \<Rightarrow> Inr (scada_with_times (frame_rows df) parsed))))"

definition load_plant_data :: "data_files \<Rightarrow> py_exception + plant_row list" where
  "load_plant_data files =
     (case plant_file files of
        None \<Rightarrow> Inl (FileNotFoundError ''plant_data.csv'')
      | Some f \<Rightarrow>
          (case read_csv f of
             Inl e \<Rightarrow> Inl e
           | Inr df \<Rightarrow>
               if ''time_utc'' \<notin> set (columns df) then Inl (KeyError ''time_utc'')
               else (case to_datetime Coerce (map time_utc (frame_rows df)) of
                       Inl e \<Rightarrow> Inl e
                     | Inr parsed \<Rightarrow> Inr (plant_with_times (frame_rows df) parsed))))"

definition load_asset_data :: "data_files \<Rightarrow> py_exception + asset_row list" where
  "load_asset_data files =
     (case asset_file files of
        None \<Rightarrow> Inl (FileNotFoundError ''la-haute-borne_asset_table.csv'')
      | Some f \<Rightarrow> (case read_csv f of Inl e \<Rightarrow> Inl e | Inr df \<Rightarrow> Inr (frame_rows df)))"

definition load_era5_data :: "data_files \<Rightarrow> py_exception + era5_row list" where
  "load_era5_data files =
     (case era5_file files of
        None \<Rightarrow> Inl (FileNotFoundError ''era5_wind_la_haute_borne.csv'')
      | Some f \<Rightarrow>
          (case read_csv f of
             Inl e \<Rightarrow> Inl e
           | Inr df \<Rightarrow>
               if ''datetime'' \<notin> set (columns df) then Inl (KeyError ''datetime'')
               else (case to_datetime Coerce (map datetime (frame_rows df)) of
                       Inl e \<Rightarrow> Inl e
                     | Inr parsed \<Rightarrow> Inr (era5_with_times (frame_rows df) parsed))))"

definition load_merra2_data :: "data_files \<Rightarrow> py_exception + era5_row list" where
  "load_merra2_data files =
     (case merra2_file files of
        None \<Rightarrow> Inl (FileNotFoundError ''merra2_la_haute_borne.csv'')
      | Some f \<Rightarrow>
          (case read_csv f of
             Inl e \<Rightarrow> Inl e
           | Inr df \<Rightarrow>
               if ''datetime'' \<notin> set (columns df) then Inl (KeyError ''datetime'')
               else (case to_datetime Coerce (map datetime (frame_rows df)) of
                       Inl e \<Rightarrow> Inl e
                     | Inr parsed \<Rightarrow> Inr (era5_with_times (frame_rows df) parsed))))"

section \<open>The cache\<close>

text \<open>
  \<^verbatim>\<open>_data_cache\<close>, a dictionary with one entry per dataset name. A key is given by how
  its entry is read and written.
\<close>

record data_cache =
  cached_scada :: "scada_row list option"
  cached_plant :: "plant_row list option"
  cached_asset :: "asset_row list option"
  cached_era5 :: "era5_row list option"
  cached_merra2 :: "era5_row list option"


type_synonym 'a cache_key = "(data_cache \<Rightarrow> 'a option) \<times> ('a \<Rightarrow> data_cache \<Rightarrow> data_cache)"

definition scada_key :: "scada_row list cache_key" where
  "scada_key = (cached_scada, \<lambda>v c. c\<lparr>cached_scada := Some v\<rparr>)"

definition plant_key :: "plant_row list cache_key" where
  "plant_key = (cached_plant, \<lambda>v c. c\<lparr>cached_plant := Some v\<rparr>)"

definition asset_key :: "asset_row list cache_key" where
  "asset_key = (cached_asset, \<lambda>v c. c\<lparr>cached_asset := Some v\<rparr>)"

definition era5_key :: "era5_row list cache_key" where
  "era5_key = (cached_era5, \<lambda>v c. c\<lparr>cached_era5 := Some v\<rparr>)"

text \<open>
  \<^verbatim>\<open>get_cached_data(key, loader_func)\<close>: the cached table, or the loaded table, which
  is then cached. An exception of the loader leaves the cache as it was.
\<close>

definition get_cached_data ::
  "'a cache_key \<Rightarrow> (data_files \<Rightarrow> py_exception + 'a) \<Rightarrow> data_files \<Rightarrow> data_cache
     \<Rightarrow> (py_exception + 'a) \<times> data_cache" where
  "get_cached_data key loader_func files cache =
     (case fst key cache of
        Some v \<Rightarrow> (Inr v, cache)
      | None \<Rightarrow>
          (case loader_func files of
             Inl e \<Rightarrow> (Inl e, cache)
           | Inr v \<Rightarrow> (Inr v, snd key v cache)))"

section \<open>The analyses and their entry point\<close>

text \<open>
  Each analysis fetches its tables through the cache and computes its results from them.
  The results are represented by the values of the local variables named in the payload
  records below; the code that follows them in each function (annualising, rounding and
  formatting the dictionary that is returned, with the exceptions it can raise on a
  degenerate table) is not modelled. The argument \<^verbatim>\<open>params\<close> is a dictionary.
\<close>

type_synonym params = "(string \<times> string) list"

text \<open>\<^verbatim>\<open>years = date_range.days / 365.25\<close>, with
  \<^verbatim>\<open>date_range = scada_df['Date_time'].max() - scada_df['Date_time'].min()\<close>; NaN when
  the table has no timestamp.\<close>

definition years :: "scada_row list \<Rightarrow> real option" where
  "years scada_df =
     (case (ts_min (map Date_time scada_df), ts_max (map Date_time scada_df)) of
        (Some lo, Some hi) \<Rightarrow> Some (real_of_int ((hi - lo) div 86400000000000) / (36525 / 100))
      | _ \<Rightarrow> None)"

fun py_times :: "real \<Rightarrow> py_number \<Rightarrow> py_number" where
  "py_times a (Float f) = Float (a * f)"
| "py_times a NaN = NaN"
| "py_times a Complex = Complex"

record aep_payload =
  aep_total_energy_kwh :: real
  aep_annual_energy_gwh :: real
  aep_op_period_ws :: "real option"
  aep_ltm_ws :: "real option"
  aep_ltm_correction_factor :: py_number
  aep_ltm_annual_energy_gwh :: py_number

text \<open>\<^verbatim>\<open>run_aep_analysis\<close>, lines 836 to 859.\<close>

definition aep_results :: "scada_row list \<Rightarrow> era5_row list \<Rightarrow> aep_payload" where
  "aep_results scada_df era5_df =
     (let total_energy_gwh = total_energy_kwh scada_df / 1000000;
          annual_energy_gwh =
            (case years scada_df of
               Some y \<Rightarrow> if y > 0 then total_energy_gwh / y else total_energy_gwh
             | None \<Rightarrow> total_energy_gwh);
          op_start = ts_min (map Date_time scada_df);
          op_end = ts_max (map Date_time scada_df);
          (op_period_ws, ltm_ws, ltm_correction_factor) = long_term_correction op_start op_end era5_df
      in \<lparr>aep_total_energy_kwh = total_energy_kwh scada_df,
           aep_annual_energy_gwh = annual_energy_gwh,
           aep_op_period_ws = op_period_ws,
           aep_ltm_ws = ltm_ws,
           aep_ltm_correction_factor = ltm_correction_factor,
           aep_ltm_annual_energy_gwh = py_times annual_energy_gwh ltm_correction_factor\<rparr>)"

record electrical_payload =
  el_turbine_energy_kwh :: real
  el_meter_energy_kwh :: real
  electrical_loss_kwh :: real
  electrical_loss_percent :: real

text \<open>\<^verbatim>\<open>run_electrical_losses_analysis\<close>, lines 936 to 952.\<close>

definition electrical_results :: "scada_row list \<Rightarrow> plant_row list \<Rightarrow> electrical_payload" where
  "electrical_results scada_df plant_df =
     (let t = turbine_energy_kwh scada_df; m = meter_energy_kwh plant_df
      in if t > 0
         then \<lparr>el_turbine_energy_kwh = t, el_meter_energy_kwh = m,
                electrical_loss_kwh = t - m, electrical_loss_percent = (t - m) / t * 100\<rparr>
         else \<lparr>el_turbine_energy_kwh = t, el_meter_energy_kwh = m,
                electrical_loss_kwh = 0, electrical_loss_percent = 0\<rparr>)"

record wake_payload =
  direction_dependent_losses :: "direction_loss list"
  turbine_layout :: "asset_row list"

record gross_turbine =
  gross_turbine_id :: string
  gross_operational_energy_kwh :: real
  gross_availability :: real
  gross_energy_kwh :: real

record gross_payload =
  gross_op_ws :: "real option"
  gross_ltm_ws :: "real option"
  gross_ltm_correction :: py_number
  gross_turbines :: "gross_turbine list"

text \<open>\<^verbatim>\<open>run_turbine_gross_energy_analysis\<close>, lines 1106 to 1137: the correction and,
  per turbine, the energy in normal operation, the availability and the gross energy
  \<^verbatim>\<open>operational_energy_kwh / (1 - 0.06)\<close>.\<close>

definition gross_results :: "scada_row list \<Rightarrow> era5_row list \<Rightarrow> gross_payload" where
  "gross_results scada_df era5_df =
     (let op_start = ts_min (map Date_time scada_df);
          op_end = ts_max (map Date_time scada_df);
          (era5_op_ws, era5_ltm_ws, ltm_correction) = long_term_correction op_start op_end era5_df
      in \<lparr>gross_op_ws = era5_op_ws, gross_ltm_ws = era5_ltm_ws, gross_ltm_correction = ltm_correction,
           gross_turbines =
             map (\<lambda>turbine.
                    let t_df = filter (\<lambda>r. Wind_turbine_name r = turbine) scada_df
                    in \<lparr>gross_turbine_id = turbine,
                         gross_operational_energy_kwh = operational_energy_kwh t_df,
                         gross_availability =
                           (if length t_df > 0
                            then real (length (normal_df t_df)) / real (length t_df) else 1),
                         gross_energy_kwh = operational_energy_kwh t_df / (1 - 6 / 100)\<rparr>)
               (turbine_names scada_df)\<rparr>)"

record eya_payload =
  eya_turbine_energy :: "real option"
  eya_meter_energy :: "real option"

text \<open>\<^verbatim>\<open>run_eya_gap_analysis\<close>, lines 1273 to 1281: the yearly energies in GWh. The
  division by \<^verbatim>\<open>years\<close> raises \<^verbatim>\<open>ZeroDivisionError\<close> when the table spans less
  than a day, and gives NaN when \<^verbatim>\<open>years\<close> is NaN.\<close>

definition eya_results :: "scada_row list \<Rightarrow> plant_row list \<Rightarrow> py_exception + eya_payload" where
  "eya_results scada_df plant_df =
     (case years scada_df of
        None \<Rightarrow> Inr \<lparr>eya_turbine_energy = None, eya_meter_energy = None\<rparr>
      | Some y \<Rightarrow>
          if y = 0 then Inl ZeroDivisionError
          else Inr \<lparr>eya_turbine_energy = Some (turbine_energy_kwh scada_df / 1000000 / y),
                     eya_meter_energy = Some (meter_energy_kwh plant_df / 1000000 / y)\<rparr>)"

datatype analysis_results =
  AepResults aep_payload
| ElectricalLossesResults electrical_payload
| WakeLossesResults wake_payload
| GrossEnergyResults gross_payload
| YawMisalignmentResults "yaw_result list"
| EyaGapResults eya_payload

text \<open>The six analyses. An exception of a loader ends the analysis; what was cached
  before it stays cached. (The wake analysis fetches the SCADA table once more when it
  builds its dictionary; the table is cached by then.)\<close>

definition run_aep_analysis ::
  "params \<Rightarrow> data_files \<Rightarrow> data_cache \<Rightarrow> (py_exception + analysis_results) \<times> data_cache" where
  "run_aep_analysis params files cache =
     (case get_cached_data scada_key load_scada_data files cache of
        (Inl e, cache1) \<Rightarrow> (Inl e, cache1)
      | (Inr scada_df, cache1) \<Rightarrow>
          (case get_cached_data era5_key load_era5_data files cache1 of
             (Inl e, cache2) \<Rightarrow> (Inl e, cache2)
           | (Inr era5_df, cache2) \<Rightarrow> (Inr (AepResults (aep_results scada_df era5_df)), cache2)))"

definition run_electrical_losses_analysis ::
  "params \<Rightarrow> data_files \<Rightarrow> data_cache \<Rightarrow> (py_exception + analysis_results) \<times> data_cache" where
  "run_electrical_losses_analysis params files cache =
     (case get_cached_data scada_key load_scada_data files cache of
        (Inl e, cache1) \<Rightarrow> (Inl e, cache1)
      | (Inr scada_df, cache1) \<Rightarrow>
          (case get_cached_data plant_key load_plant_data files cache1 of
             (Inl e, cache2) \<Rightarrow> (Inl e, cache2)
           | (Inr plant_df, cache2) \<Rightarrow>
               (Inr (ElectricalLossesResults (electrical_results scada_df plant_df)), cache2)))"

definition run_wake_losses_analysis ::
  "params \<Rightarrow> data_files \<Rightarrow> data_cache \<Rightarrow> (py_exception + analysis_results) \<times> data_cache" where
  "run_wake_losses_analysis params files cache =
     (case get_cached_data scada_key load_scada_data files cache of
        (Inl e, cache1) \<Rightarrow> (Inl e, cache1)
      | (Inr scada_df, cache1) \<Rightarrow>
          (case get_cached_data asset_key load_asset_data files cache1 of
             (Inl e, cache2) \<Rightarrow> (Inl e, cache2)
           | (Inr asset_df, cache2) \<Rightarrow>
               (Inr (WakeLossesResults
                       \<lparr>direction_dependent_losses = direction_losses scada_df,
                         turbine_layout = asset_df\<rparr>), cache2)))"

definition run_turbine_gross_energy_analysis ::
  "params \<Rightarrow> data_files \<Rightarrow> data_cache \<Rightarrow> (py_exception + analysis_results) \<times> data_cache" where
  "run_turbine_gross_energy_analysis params files cache =
     (case get_cached_data scada_key load_scada_data files cache of
        (Inl e, cache1) \<Rightarrow> (Inl e, cache1)
      | (Inr scada_df, cache1) \<Rightarrow>
          (case get_cached_data era5_key load_era5_data files cache1 of
             (Inl e, cache2) \<Rightarrow> (Inl e, cache2)
           | (Inr era5_df, cache2) \<Rightarrow>
               (Inr (GrossEnergyResults (gross_results scada_df era5_df)), cache2)))"

definition run_yaw_misalignment_analysis ::
  "params \<Rightarrow> data_files \<Rightarrow> data_cache \<Rightarrow> (py_exception + analysis_results) \<times> data_cache" where
  "run_yaw_misalignment_analysis params files cache =
     (case get_cached_data scada_key load_scada_data files cache of
        (Inl e, cache1) \<Rightarrow> (Inl e, cache1)
      | (Inr scada_df, cache1) \<Rightarrow>
          (Inr (YawMisalignmentResults (yaw_turbine_results scada_df)), cache1))"

definition run_eya_gap_analysis ::
  "params \<Rightarrow> data_files \<Rightarrow> data_cache \<Rightarrow> (py_exception + analysis_results) \<times> data_cache" where
  "run_eya_gap_analysis params files cache =
     (case get_cached_data scada_key load_scada_data files cache of
        (Inl e, cache1) \<Rightarrow> (Inl e, cache1)
      | (Inr scada_df, cache1) \<Rightarrow>
          (case get_cached_data plant_key load_plant_data files cache1 of
             (Inl e, cache2) \<Rightarrow> (Inl e, cache2)
           | (Inr plant_df, cache2) \<Rightarrow>
               (case eya_results scada_df plant_df of
                  Inl e \<Rightarrow> (Inl e, cache2)
                | Inr res \<Rightarrow> (Inr (EyaGapResults res), cache2))))"

text \<open>
  The request and the response of \<^verbatim>\<open>POST /api/run-analysis\<close>. The wall clock is read
  three times: at the start, after the analysis, and for the timestamp of the response.
\<close>

record analysis_request =
  analysis_type :: string
  use_example_data :: bool
  parameters :: "params option"

record clock =
  start_time :: real
  end_time :: real
  response_time :: real

record analysis_response =
  status :: string
  response_analysis_type :: string
  results :: analysis_results
  response_timestamp :: real
  message :: string
  execution_time_seconds :: real

text \<open>\<^verbatim>\<open>HTTPException\<close> with status 503 (raised before the \<^verbatim>\<open>try\<close>) and with
  status 500 (every exception inside the \<^verbatim>\<open>try\<close>, also the one for an unknown
  analysis type, is caught and raised again as ``Analysis failed'').\<close>

datatype http_exception = ServiceUnavailable | AnalysisFailed py_exception

definition run_analysis ::
  "bool \<Rightarrow> clock \<Rightarrow> analysis_request \<Rightarrow> data_files \<Rightarrow> data_cache
     \<Rightarrow> (http_exception + analysis_response) \<times> data_cache" where
  "run_analysis openoa_available clk request files cache =
     (if \<not> openoa_available then (Inl ServiceUnavailable, cache)
      else
        let t = analysis_type request;
            params = (case parameters request of None \<Rightarrow> [] | Some p \<Rightarrow> p);
            (outcome, cache') =
              (if t = ''monte_carlo_aep'' \<or> t = ''aep'' then run_aep_analysis params files cache
               else if t = ''electrical_losses'' then run_electrical_losses_analysis params files cache
               else if t = ''wake_losses'' then run_wake_losses_analysis params files cache
               else if t = ''turbine_gross_energy'' then run_turbine_gross_energy_analysis params files cache
               else if t = ''yaw_misalignment'' then run_yaw_misalignment_analysis params files cache
               else if t = ''eya_gap'' then run_eya_gap_analysis params files cache
               else (Inl (UnknownAnalysis t), cache))
        in case outcome of
             Inl e \<Rightarrow> (Inl (AnalysisFailed e), cache')
           | Inr res \<Rightarrow>
               (Inr \<lparr>status = ''success'',
                      response_analysis_type = t,
                      results = res,
                      response_timestamp = response_time clk,
                      message = ''Analysis completed successfully using real OpenOA data'',
                      execution_time_seconds = py_round (end_time clk - start_time clk) 2\<rparr>,
                cache'))"




text \<open>Files for the examples: a SCADA file of two rows, the first with a time cell that
  does not parse; and a SCADA file without its time column.\<close>

definition two_row_files :: data_files where
  "two_row_files =
     \<lparr>scada_file = Some (Csv \<lparr>columns = [''Wind_turbine_name'', ''Date_time'', ''P_avg'', ''Ws_avg'',
                                           ''Wa_avg'', ''Va_avg''],
                               frame_rows =
                                 [\<lparr>Wind_turbine_name = ''T1'', Date_time = Unparseable_text, P_avg = 100,
                                    Ws_avg = 6, Wa_avg = 10, Va_avg = 0\<rparr>,
                                  \<lparr>Wind_turbine_name = ''T1'', Date_time = Timestamp_text 600000000000,
                                    P_avg = 200, Ws_avg = 6, Wa_avg = 10, Va_avg = 0\<rparr>]\<rparr>),
      plant_file = Some Malformed, asset_file = None, era5_file = None, merra2_file = None\<rparr>"

definition no_time_column_files :: data_files where
  "no_time_column_files =
     \<lparr>scada_file = Some (Csv \<lparr>columns = [''Wind_turbine_name'', ''P_avg''], frame_rows = []\<rparr>),
      plant_file = None, asset_file = None, era5_file = None, merra2_file = None\<rparr>"

section \<open>Properties of the long-term correction\<close>

lemma powr_base_less_iff:
  fixes x y a :: real
  assumes "0 \<le> x" "0 \<le> y" "0 < a"
  shows "x powr a < y powr a \<longleftrightarrow> x < y"
proof
  assume l: "x powr a < y powr a"
  show "x < y"
  proof (rule ccontr)
    assume "\<not> x < y"
    then have "y \<le> x" by simp
    then have "y powr a \<le> x powr a" using assms by (intro powr_mono2) simp_all
    with l show False by simp
  qed
next
  assume "x < y"
  then show "x powr a < y powr a" using assms by (intro powr_less_mono2) simp_all
qed

lemma powr_base_eq_one_iff:
  fixes x a :: real
  assumes "0 \<le> x" "0 < a"
  shows "x powr a = 1 \<longleftrightarrow> x = 1"
proof -
  have "x < 1 \<Longrightarrow> x powr a < 1 powr a" using assms powr_base_less_iff [of x 1 a] by simp
  moreover have "1 < x \<Longrightarrow> 1 powr a < x powr a" using assms powr_base_less_iff [of 1 x a] by simp
  ultimately show ?thesis by (cases x "1::real" rule: linorder_cases) auto
qed

lemma powr_five_halves: "0 \<le> x \<Longrightarrow> x powr (5 / 2) = sqrt (x ^ 5)"
proof -
  assume x: "0 \<le> x"
  have "x powr (5 / 2) = (x powr 5) powr (1 / 2)" by (simp add: powr_powr)
  also have "x powr 5 = x ^ 5" using x by (cases "x = 0") simp_all
  finally show ?thesis by (simp add: powr_half_sqrt x)
qed

lemma example_factor_bounds:
  "12215 / 10000 < (13 / 12 :: real) powr (5 / 2)" "(13 / 12 :: real) powr (5 / 2) < 12216 / 10000"
proof -
  have e: "(13 / 12 :: real) powr (5 / 2) = sqrt ((13 / 12) ^ 5)"
    by (rule powr_five_halves) simp
  have "(12215 / 10000 :: real) < sqrt ((13 / 12) ^ 5)"
    by (rule real_less_rsqrt) (simp add: power2_eq_square power_divide)
  then show "12215 / 10000 < (13 / 12 :: real) powr (5 / 2)" using e by simp
  have "sqrt ((13 / 12) ^ 5) < (12216 / 10000 :: real)"
    by (rule real_less_lsqrt) (simp_all add: power2_eq_square power_divide)
  then show "(13 / 12 :: real) powr (5 / 2) < 12216 / 10000" using e by simp
qed

text \<open>
  Claim C6, as amended. For positive operational and long-term means the factor is
  \<open>(ltm / op) ** 2.5\<close>; it is 1 exactly when the two means are equal, it is above 1
  exactly when the long-term mean exceeds the operational mean, and it grows strictly with
  the ratio. For an operational mean of 6.0 m/s and a long-term mean of 6.5 m/s the factor
  lies between 1.2215 and 1.2216 (the specification's example value 1.196 is not what the
  formula gives).
\<close>

theorem correction_factor_ratio:
  "0 < op \<Longrightarrow> 0 < ltm \<Longrightarrow>
     correction_factor (Some ltm) (Some op) = Float ((ltm / op) powr (5 / 2))
     \<and> ((ltm / op) powr (5 / 2) = 1 \<longleftrightarrow> ltm = op)
     \<and> (1 < (ltm / op) powr (5 / 2) \<longleftrightarrow> op < ltm)
     \<and> (\<forall>op' ltm'. 0 < op' \<and> 0 < ltm' \<longrightarrow>
           ((ltm / op) powr (5 / 2) < (ltm' / op') powr (5 / 2) \<longleftrightarrow> ltm / op < ltm' / op'))
     \<and> correction_factor (Some (13 / 2)) (Some 6) = Float ((13 / 12) powr (5 / 2))
     \<and> 12215 / 10000 < (13 / 12 :: real) powr (5 / 2)
     \<and> (13 / 12 :: real) powr (5 / 2) < 12216 / 10000"
proof -
  assume op: "0 < op" and ltm: "0 < ltm"
  have r: "0 < ltm / op" using op ltm by simp
  have a: "correction_factor (Some ltm) (Some op) = Float ((ltm / op) powr (5 / 2))"
    using op r by (simp add: correction_factor_def pow_2_5_def)
  have "(ltm / op) powr (5 / 2) = 1 \<longleftrightarrow> ltm / op = 1"
    using r by (intro powr_base_eq_one_iff) simp_all
  then have b: "(ltm / op) powr (5 / 2) = 1 \<longleftrightarrow> ltm = op" using op by auto
  have "1 powr (5 / 2) < (ltm / op) powr (5 / 2) \<longleftrightarrow> 1 < ltm / op"
    using r by (intro powr_base_less_iff) simp_all
  then have c: "1 < (ltm / op) powr (5 / 2) \<longleftrightarrow> op < ltm" using op by simp
  have d: "(ltm / op) powr (5 / 2) < (ltm' / op') powr (5 / 2) \<longleftrightarrow> ltm / op < ltm' / op'"
    if "0 < op' \<and> 0 < ltm'" for op' ltm'
    using r that by (intro powr_base_less_iff) simp_all
  have e: "correction_factor (Some (13 / 2)) (Some 6) = Float ((13 / 12) powr (5 / 2))"
    by (simp add: correction_factor_def pow_2_5_def)
  show ?thesis using a b c d e example_factor_bounds by blast
qed

text \<open>Claim C6 at an instance: operational mean 6, long-term mean 7.\<close>

theorem correction_factor_ratio_witness:
  "correction_factor (Some 7) (Some 6) = Float ((7 / 6) powr (5 / 2))
   \<and> 1 < (7 / 6 :: real) powr (5 / 2)"
  using correction_factor_ratio [of 6 7] by simp

text \<open>Claim C6 as stated fails in its example: for the means 6.0 and 6.5 the factor is no
  number that rounds to 1.196.\<close>

theorem correction_factor_example_counterexample:
  "correction_factor (Some (13 / 2)) (Some 6) \<notin> Float ` {11955 / 10000 .. 11965 / 10000}"
proof -
  have "correction_factor (Some (13 / 2)) (Some 6) = Float ((13 / 12) powr (5 / 2))"
    by (simp add: correction_factor_def pow_2_5_def)
  moreover have "(13 / 12 :: real) powr (5 / 2) \<notin> {11955 / 10000 .. 11965 / 10000}"
    using example_factor_bounds(1) by simp
  ultimately show ?thesis by auto
qed

lemma series_mean_eq_None [simp]: "series_mean xs = None \<longleftrightarrow> xs = []"
  by (simp add: series_mean_def)





section \<open>Properties of the value bins\<close>

lemma filter_less_sorted:
  "sorted_wrt (<) (bins :: real list) \<Longrightarrow> filter (\<lambda>b. b < x) bins = takeWhile (\<lambda>b. b < x) bins"
proof (induction bins)
  case Nil then show ?case by simp
next
  case (Cons b bs)
  show ?case
  proof (cases "b < x")
    case True with Cons show ?thesis by simp
  next
    case False
    then have "\<forall>c \<in> set bs. \<not> c < x" using Cons.prems by auto
    then show ?thesis using False by (simp add: filter_empty_conv)
  qed
qed

lemma length_takeWhile_iff:
  "length (takeWhile P xs) = k \<longleftrightarrow>
     k \<le> length xs \<and> (\<forall>j<k. P (xs ! j)) \<and> (k < length xs \<longrightarrow> \<not> P (xs ! k))"
proof
  assume k: "length (takeWhile P xs) = k"
  have "k \<le> length xs" using k length_takeWhile_le [of P xs] by simp
  moreover have "\<forall>j<k. P (xs ! j)"
  proof (intro allI impI)
    fix j assume "j < k"
    then have "takeWhile P xs ! j \<in> set (takeWhile P xs)" using k by simp
    then have "P (takeWhile P xs ! j)" by (rule set_takeWhileD [THEN conjunct2])
    then show "P (xs ! j)" using \<open>j < k\<close> k by (simp add: takeWhile_nth)
  qed
  moreover have "k < length xs \<longrightarrow> \<not> P (xs ! k)"
    using k nth_length_takeWhile [of P xs] by auto
  ultimately show "k \<le> length xs \<and> (\<forall>j<k. P (xs ! j)) \<and> (k < length xs \<longrightarrow> \<not> P (xs ! k))"
    by blast
next
  assume r: "k \<le> length xs \<and> (\<forall>j<k. P (xs ! j)) \<and> (k < length xs \<longrightarrow> \<not> P (xs ! k))"
  let ?m = "length (takeWhile P xs)"
  have m: "?m \<le> length xs" by (rule length_takeWhile_le)
  show "?m = k"
  proof (cases ?m k rule: linorder_cases)
    case less
    then have "?m < length xs" "P (xs ! ?m)" using r by auto
    then show ?thesis using nth_length_takeWhile [of P xs] by simp
  next
    case equal then show ?thesis .
  next
    case greater
    then have "takeWhile P xs ! k \<in> set (takeWhile P xs)" by simp
    then have "P (takeWhile P xs ! k)" by (rule set_takeWhileD [THEN conjunct2])
    then have "P (xs ! k)" using greater by (simp add: takeWhile_nth)
    moreover have "k < length xs" using greater m by simp
    ultimately show ?thesis using r by simp
  qed
qed

lemma searchsorted_left_iff:
  assumes "sorted_wrt (<) bins"
  shows "searchsorted_left bins x = k \<longleftrightarrow>
     k \<le> length bins \<and> (\<forall>j<k. bins ! j < x) \<and> (k < length bins \<longrightarrow> x \<le> bins ! k)"
  unfolding searchsorted_left_def filter_less_sorted [OF assms] length_takeWhile_iff
  by (simp add: not_less)

lemma sorted_nth_less:
  "sorted_wrt (<) (bins :: real list) \<Longrightarrow> i < j \<Longrightarrow> j < length bins \<Longrightarrow> bins ! i < bins ! j"
  by (simp add: sorted_wrt_nth_less)

lemma below_all_iff:
  assumes "sorted_wrt (<) (bins :: real list)" "i < length bins"
  shows "(\<forall>j<Suc i. bins ! j < x) \<longleftrightarrow> bins ! i < x"
proof
  assume "\<forall>j<Suc i. bins ! j < x" then show "bins ! i < x" by simp
next
  assume a: "bins ! i < x"
  show "\<forall>j<Suc i. bins ! j < x"
  proof (intro allI impI)
    fix j assume "j < Suc i"
    then have "j = i \<or> j < i" by auto
    then show "bins ! j < x"
    proof
      assume "j = i" then show ?thesis using a by simp
    next
      assume "j < i"
      then have "bins ! j < bins ! i" using assms by (simp add: sorted_wrt_nth_less)
      then show ?thesis using a by simp
    qed
  qed
qed

lemma pd_cut_Some_iff:
  assumes s: "sorted_wrt (<) bins"
  shows "pd_cut bins include_lowest x = Some i \<longleftrightarrow>
     i + 1 < length bins \<and>
     (bins ! i < x \<and> x \<le> bins ! (i + 1) \<or> include_lowest \<and> i = 0 \<and> x = bins ! 0)"
proof (cases "include_lowest \<and> bins \<noteq> [] \<and> x = hd bins")
  case True
  then have x: "x = bins ! 0" by (simp add: hd_conv_nth)
  have l: "pd_cut bins include_lowest x = Some i \<longleftrightarrow> i = 0 \<and> 1 < length bins"
    using True by (cases bins) (auto simp: pd_cut_def Let_def split: if_splits)
  have "\<not> bins ! i < bins ! 0" if "i + 1 < length bins"
  proof (cases "i = 0")
    case True then show ?thesis by simp
  next
    case False
    then have "bins ! 0 < bins ! i" using that s by (simp add: sorted_wrt_nth_less)
    then show ?thesis by simp
  qed
  then show ?thesis using l x True by auto
next
  case False
  let ?k = "searchsorted_left bins x"
  have kl: "?k \<le> length bins" by (simp add: searchsorted_left_def)
  have l: "pd_cut bins include_lowest x = Some i \<longleftrightarrow> ?k = i + 1 \<and> i + 1 < length bins"
    using False kl by (auto simp: pd_cut_def Let_def split: if_splits)
  have m: "?k = i + 1 \<and> i + 1 < length bins \<longleftrightarrow>
      i + 1 < length bins \<and> bins ! i < x \<and> x \<le> bins ! (i + 1)"
    using searchsorted_left_iff [OF s, of x "i + 1"] below_all_iff [OF s, of i x] by auto
  have "\<not> (include_lowest \<and> i = 0 \<and> x = bins ! 0)" if "i + 1 < length bins"
    using False that by (cases bins) auto
  then show ?thesis using l m by blast
qed

lemma pd_cut_None_iff:
  assumes s: "sorted_wrt (<) bins" and n: "bins \<noteq> []"
  shows "pd_cut bins include_lowest x = None \<longleftrightarrow>
     x < bins ! 0 \<or> (x = bins ! 0 \<and> (\<not> include_lowest \<or> length bins = 1)) \<or> last bins < x"
proof -
  let ?k = "searchsorted_left bins x"
  have k0: "?k = 0 \<longleftrightarrow> x \<le> bins ! 0"
    using searchsorted_left_iff [OF s, of x 0] n by auto
  have kn: "?k = length bins \<longleftrightarrow> last bins < x"
  proof -
    have "(\<forall>j<length bins. bins ! j < x) \<longleftrightarrow> bins ! (length bins - 1) < x"
      using below_all_iff [OF s, of "length bins - 1" x] n by simp
    then show ?thesis using searchsorted_left_iff [OF s, of x "length bins"] n
      by (simp add: last_conv_nth)
  qed
  have lb: "bins ! 0 \<le> last bins"
  proof (cases "length bins = 1")
    case True then show ?thesis using n by (simp add: last_conv_nth)
  next
    case False
    then have "0 < length bins - 1" "length bins - 1 < length bins" using n
      by (cases bins; simp)+
    then have "bins ! 0 < bins ! (length bins - 1)" using s
      by (simp add: sorted_wrt_nth_less)
    then show ?thesis using n by (simp add: last_conv_nth)
  qed
  show ?thesis
  proof (cases "include_lowest \<and> x = hd bins")
    case True
    then have "pd_cut bins include_lowest x = None \<longleftrightarrow> length bins = 1"
      using n by (auto simp: pd_cut_def Let_def)
    then show ?thesis using True n lb by (auto simp: hd_conv_nth)
  next
    case False
    then have "pd_cut bins include_lowest x = None \<longleftrightarrow> ?k = 0 \<or> ?k = length bins"
      using n by (auto simp: pd_cut_def Let_def)
    then show ?thesis using k0 kn False n lb by (auto simp: hd_conv_nth)
  qed
qed


lemma length_np_arange [simp]:
  "length (np_arange start stop step) = nat \<lceil>(stop - start) / step\<rceil>"
  by (simp add: np_arange_def)

lemma nth_np_arange:
  "i < nat \<lceil>(stop - start) / step\<rceil> \<Longrightarrow> np_arange start stop step ! i = start + real i * step"
  by (simp add: np_arange_def)

lemma sorted_np_arange: "0 < step \<Longrightarrow> sorted_wrt (<) (np_arange start stop step)"
  by (simp add: np_arange_def sorted_wrt_map sorted_wrt_iff_nth_less)

lemma rose_direction_bins_eq:
  "rose_direction_bins = [0, 45 / 2, 45, 135 / 2, 90, 225 / 2, 135, 315 / 2, 180, 405 / 2, 225,
     495 / 2, 270, 585 / 2, 315, 675 / 2, 360]"
  by (simp add: rose_direction_bins_def np_arange_def upt_rec)

lemma wake_direction_bins_eq:
  "wake_direction_bins = [0, 30, 60, 90, 120, 150, 180, 210, 240, 270, 300, 330, 360]"
  by (simp add: wake_direction_bins_def np_arange_def upt_rec)

lemma length_power_curve_bins:
  assumes "0 < w"
  shows "2 \<le> length (power_curve_bins w)"
proof -
  have "1 < (30 + w) / w" using assms by (simp add: field_simps)
  then have "2 \<le> \<lceil>(30 + w) / w\<rceil>" by linarith
  then have "2 \<le> nat \<lceil>(30 + w) / w\<rceil>" by linarith
  then show ?thesis by (simp add: power_curve_bins_def)
qed

lemma pd_cut_labelled_Some_iff:
  assumes s: "sorted_wrt (<) bins"
  shows "pd_cut_labelled bins include_lowest x = Some c \<longleftrightarrow>
     (\<exists>i. i + 1 < length bins \<and> c = bins ! i \<and>
        (bins ! i < x \<and> x \<le> bins ! (i + 1) \<or> include_lowest \<and> i = 0 \<and> x = bins ! 0))"
proof -
  have "pd_cut_labelled bins include_lowest x = Some c \<longleftrightarrow>
      (\<exists>i. pd_cut bins include_lowest x = Some i \<and> c = butlast bins ! i)"
    by (auto simp: pd_cut_labelled_def)
  also have "\<dots> \<longleftrightarrow> (\<exists>i. i + 1 < length bins \<and> c = bins ! i \<and>
        (bins ! i < x \<and> x \<le> bins ! (i + 1) \<or> include_lowest \<and> i = 0 \<and> x = bins ! 0))"
    unfolding pd_cut_Some_iff [OF s] by (auto simp: nth_butlast)
  finally show ?thesis .
qed

lemma pd_cut_labelled_None_iff:
  "pd_cut_labelled bins include_lowest x = None \<longleftrightarrow> pd_cut bins include_lowest x = None"
  by (simp add: pd_cut_labelled_def)

lemma group_rows_binned:
  assumes "g \<in> set (groupby_cut bins col df)"
  shows "\<exists>i. i + 1 < length bins \<and> g = filter (\<lambda>r. pd_cut bins False (col r) = Some i) df"
proof -
  obtain i where i: "i < length bins - 1" "g = filter (\<lambda>r. pd_cut bins False (col r) = Some i) df"
    using assms by (auto simp: groupby_cut_def)
  then have "i + 1 < length bins" by simp
  then show ?thesis using i by blast
qed

lemma arange_cut_Some_iff:
  assumes "0 < step"
  shows "pd_cut (np_arange start stop step) include_lowest x = Some i \<longleftrightarrow>
     i + 1 < length (np_arange start stop step) \<and>
     (start + real i * step < x \<and> x \<le> start + real (i + 1) * step
      \<or> include_lowest \<and> i = 0 \<and> x = start)"
proof -
  let ?n = "nat \<lceil>(stop - start) / step\<rceil>"
  have a: "i + 1 < ?n \<Longrightarrow> np_arange start stop step ! i = start + real i * step"
    by (intro nth_np_arange) simp
  have b: "i + 1 < ?n \<Longrightarrow> np_arange start stop step ! (i + 1) = start + real (i + 1) * step"
    by (intro nth_np_arange) simp
  have c: "np_arange start stop step ! 0 = start" if "i + 1 < ?n"
  proof -
    have "0 < ?n" using that by linarith
    from nth_np_arange [OF this] show ?thesis by simp
  qed
  show ?thesis
    unfolding pd_cut_Some_iff [OF sorted_np_arange [OF assms]]
    using a b c by auto
qed

lemma arange_cut_labelled_Some_iff:
  assumes "0 < step"
  shows "pd_cut_labelled (np_arange start stop step) include_lowest x = Some c \<longleftrightarrow>
     (\<exists>i. i + 1 < length (np_arange start stop step) \<and> c = start + real i * step \<and>
       (c < x \<and> x \<le> c + step \<or> include_lowest \<and> i = 0 \<and> x = start))"
proof -
  let ?b = "np_arange start stop step"
  have "pd_cut_labelled ?b include_lowest x = Some c \<longleftrightarrow>
      (\<exists>i. pd_cut ?b include_lowest x = Some i \<and> c = butlast ?b ! i)"
    by (auto simp: pd_cut_labelled_def)
  also have "\<dots> \<longleftrightarrow> (\<exists>i. pd_cut ?b include_lowest x = Some i \<and> c = start + real i * step)"
  proof -
    have "butlast ?b ! i = start + real i * step" if "pd_cut ?b include_lowest x = Some i" for i
    proof -
      have "i + 1 < length ?b" using that arange_cut_Some_iff [OF assms] by blast
      then show ?thesis by (simp add: nth_butlast nth_np_arange)
    qed
    then show ?thesis by auto
  qed
  also have "\<dots> \<longleftrightarrow> (\<exists>i. i + 1 < length ?b \<and> c = start + real i * step \<and>
       (c < x \<and> x \<le> c + step \<or> include_lowest \<and> i = 0 \<and> x = start))"
    unfolding arange_cut_Some_iff [OF assms] by (auto simp: algebra_simps)
  finally show ?thesis .
qed

lemma rose_cut_Some_iff:
  "pd_cut_labelled rose_direction_bins True x = Some c \<longleftrightarrow>
     (\<exists>i<16. c = real i * (45 / 2) \<and> (c < x \<and> x \<le> c + 45 / 2 \<or> i = 0 \<and> x = 0))"
  unfolding rose_direction_bins_def
  by (subst arange_cut_labelled_Some_iff) auto

lemma wake_cut_Some_iff:
  "pd_cut_labelled wake_direction_bins True x = Some c \<longleftrightarrow>
     (\<exists>i<12. c = real i * 30 \<and> (c < x \<and> x \<le> c + 30 \<or> i = 0 \<and> x = 0))"
  unfolding wake_direction_bins_def
  by (subst arange_cut_labelled_Some_iff) auto

lemma rose_cut_None_iff:
  "pd_cut_labelled rose_direction_bins True x = None \<longleftrightarrow> x < 0 \<or> 360 < x"
proof -
  have s: "sorted_wrt (<) rose_direction_bins"
    unfolding rose_direction_bins_def by (rule sorted_np_arange) simp
  show ?thesis
    unfolding pd_cut_labelled_None_iff
    by (subst pd_cut_None_iff [OF s]) (simp_all add: rose_direction_bins_eq)
qed

lemma wake_cut_None_iff:
  "pd_cut_labelled wake_direction_bins True x = None \<longleftrightarrow> x < 0 \<or> 360 < x"
proof -
  have s: "sorted_wrt (<) wake_direction_bins"
    unfolding wake_direction_bins_def by (rule sorted_np_arange) simp
  show ?thesis
    unfolding pd_cut_labelled_None_iff
    by (subst pd_cut_None_iff [OF s]) (simp_all add: wake_direction_bins_eq)
qed

lemma power_curve_cut_None_iff:
  assumes "0 < w"
  shows "pd_cut (power_curve_bins w) False x = None \<longleftrightarrow> x \<le> 0 \<or> last (power_curve_bins w) < x"
proof -
  have s: "sorted_wrt (<) (power_curve_bins w)"
    unfolding power_curve_bins_def by (rule sorted_np_arange) (rule assms)
  have n: "power_curve_bins w \<noteq> []" using length_power_curve_bins [OF assms] by auto
  have "2 \<le> nat \<lceil>(30 + w - 0) / w\<rceil>"
    using length_power_curve_bins [OF assms] by (simp add: power_curve_bins_def)
  then have "0 < nat \<lceil>(30 + w - 0) / w\<rceil>" by linarith
  from nth_np_arange [OF this] have z: "power_curve_bins w ! 0 = 0"
    by (simp add: power_curve_bins_def)
  show ?thesis using pd_cut_None_iff [OF s n, of False x] z by auto
qed

lemma last_power_curve_bins:
  assumes "0 < w"
  shows "30 \<le> last (power_curve_bins w)"
proof -
  let ?n = "nat \<lceil>(30 + w - 0) / w\<rceil>"
  have n2: "2 \<le> length (power_curve_bins w)" by (rule length_power_curve_bins [OF assms])
  then have n: "power_curve_bins w \<noteq> []" by auto
  have n': "2 \<le> ?n" using n2 by (simp add: power_curve_bins_def)
  then obtain m where m: "?n = Suc m" by (cases ?n) auto
  have "m < ?n" using m by simp
  from nth_np_arange [OF this] have "power_curve_bins w ! m = real m * w"
    by (simp add: power_curve_bins_def)
  moreover have "last (power_curve_bins w) = power_curve_bins w ! m"
    using n m by (simp add: last_conv_nth power_curve_bins_def)
  ultimately have l: "last (power_curve_bins w) = real m * w" by simp
  have "(30 + w - 0) / w \<le> real_of_int \<lceil>(30 + w - 0) / w\<rceil>" by (rule le_of_int_ceiling)
  also have "\<dots> = real ?n" using n' by simp
  also have "\<dots> = real m + 1" using m by simp
  finally have "(30 + w) / w \<le> real m + 1" by simp
  then have "30 + w \<le> (real m + 1) * w" using assms by (simp add: pos_divide_le_eq)
  then have "30 \<le> real m * w" by (simp add: algebra_simps)
  then show ?thesis using l by simp
qed


lemma power_curve_cut_Some_iff:
  assumes "0 < w"
  shows "pd_cut (power_curve_bins w) False x = Some i \<longleftrightarrow>
     i + 1 < length (power_curve_bins w) \<and> real i * w < x \<and> x \<le> real (i + 1) * w"
  unfolding power_curve_bins_def arange_cut_Some_iff [OF assms] by simp

text \<open>
  Claim C4, as amended. The intervals of every value binning are closed on the right:
  a value \<open>x\<close> is in the bucket with edges \<open>lo\<close> and \<open>hi\<close> exactly when
  \<open>lo < x \<le> hi\<close>. In the direction sectors of the wind rose and of the wake analysis
  (\<^verbatim>\<open>include_lowest=True\<close>) the first sector also holds its lower edge 0; in the
  wind-speed bins of the power curve it does not, so a wind speed of exactly 0 has no
  bucket. A value outside all intervals has no bucket, and a row without a bucket is in no
  group of the aggregation. The last edge of the wind-speed bins is at least 30.
\<close>

theorem value_bins_right_closed:
  "(0 < bin_width \<longrightarrow>
      (pd_cut (power_curve_bins bin_width) False x = Some i \<longleftrightarrow>
         i + 1 < length (power_curve_bins bin_width) \<and>
         real i * bin_width < x \<and> x \<le> real (i + 1) * bin_width)
      \<and> (pd_cut (power_curve_bins bin_width) False x = None \<longleftrightarrow>
         x \<le> 0 \<or> last (power_curve_bins bin_width) < x)
      \<and> 30 \<le> last (power_curve_bins bin_width))
   \<and> (pd_cut_labelled rose_direction_bins True x = Some c \<longleftrightarrow>
        (\<exists>i<16. c = real i * (45 / 2) \<and> (c < x \<and> x \<le> c + 45 / 2 \<or> i = 0 \<and> x = 0)))
   \<and> (pd_cut_labelled rose_direction_bins True x = None \<longleftrightarrow> x < 0 \<or> 360 < x)
   \<and> (pd_cut_labelled wake_direction_bins True x = Some c \<longleftrightarrow>
        (\<exists>i<12. c = real i * 30 \<and> (c < x \<and> x \<le> c + 30 \<or> i = 0 \<and> x = 0)))
   \<and> (pd_cut_labelled wake_direction_bins True x = None \<longleftrightarrow> x < 0 \<or> 360 < x)
   \<and> (\<forall>g \<in> set (groupby_cut bins col df). \<forall>r \<in> set g. pd_cut bins False (col r) \<noteq> None)
   \<and> (\<forall>r \<in> set (sector_rows c scada_df).
         pd_cut_labelled wake_direction_bins True (Wa_avg r) = Some c)"
proof -
  have g: "\<forall>g \<in> set (groupby_cut bins col df). \<forall>r \<in> set g. pd_cut bins False (col r) \<noteq> None"
    using group_rows_binned [of _ bins col df] by fastforce
  have w: "\<forall>r \<in> set (sector_rows c scada_df).
         pd_cut_labelled wake_direction_bins True (Wa_avg r) = Some c"
    by (simp add: sector_rows_def)
  show ?thesis
    using power_curve_cut_Some_iff [of bin_width x i] power_curve_cut_None_iff [of bin_width x]
      last_power_curve_bins [of bin_width] rose_cut_Some_iff [of x c] rose_cut_None_iff [of x]
      wake_cut_Some_iff [of x c] wake_cut_None_iff [of x] g w
    by blast
qed

lemma length_power_curve_bins_half: "length (power_curve_bins (1 / 2)) = 61"
  by (simp add: power_curve_bins_def)

theorem value_bins_right_closed_witness:
  "pd_cut (power_curve_bins (1 / 2)) False (3 / 4) = Some 1
   \<and> pd_cut (power_curve_bins (1 / 2)) False (- 1) = None
   \<and> pd_cut_labelled wake_direction_bins True 45 = Some 30
   \<and> groupby_cut (power_curve_bins (1 / 2)) Ws_avg
        [(\<lparr>Wind_turbine_name = ''T1'', Date_time = None, P_avg = 100, Ws_avg = 3 / 4,
           Wa_avg = 45, Va_avg = 0\<rparr> :: scada_row)]
      = [[(\<lparr>Wind_turbine_name = ''T1'', Date_time = None, P_avg = 100, Ws_avg = 3 / 4,
           Wa_avg = 45, Va_avg = 0\<rparr> :: scada_row)]]
   \<and> sector_rows 30
        [(\<lparr>Wind_turbine_name = ''T1'', Date_time = None, P_avg = 100, Ws_avg = 3 / 4,
           Wa_avg = 45, Va_avg = 0\<rparr> :: scada_row)]
      = [(\<lparr>Wind_turbine_name = ''T1'', Date_time = None, P_avg = 100, Ws_avg = 3 / 4,
           Wa_avg = 45, Va_avg = 0\<rparr> :: scada_row)]"
proof -
  let ?r = "(\<lparr>Wind_turbine_name = ''T1'', Date_time = None, P_avg = 100, Ws_avg = 3 / 4,
           Wa_avg = 45, Va_avg = 0\<rparr> :: scada_row)"
  note t = value_bins_right_closed [where bin_width = "1 / 2"
      and bins = "power_curve_bins (1 / 2)" and col = Ws_avg and df = "[?r]" and scada_df = "[?r]"]
  have a: "pd_cut (power_curve_bins (1 / 2)) False (3 / 4) = Some 1"
    using t [of "3 / 4" 1 0] by (simp add: length_power_curve_bins_half)
  have b: "pd_cut (power_curve_bins (1 / 2)) False (- 1) = None"
    using t [of "- 1" 0 0] by simp
  have c: "pd_cut_labelled wake_direction_bins True 45 = Some 30"
  proof -
    have "\<exists>i<12. (30::real) = real i * 30 \<and> (30 < (45::real) \<and> (45::real) \<le> 30 + 30 \<or> i = 0 \<and> (45::real) = 0)"
      by (intro exI [of _ 1]) simp
    then show ?thesis using t [of 45 0 30] by blast
  qed
  have d: "sector_rows 30 [?r] = [?r]" using c by (simp add: sector_rows_def)
  have e: "groupby_cut (power_curve_bins (1 / 2)) Ws_avg [?r] = [[?r]]"
    by code_simp
  show ?thesis using a b c d e by simp
qed

text \<open>Claim C4 as stated fails: with the default bin width the edge 0.5 between the first
  two wind-speed buckets belongs to the first bucket (edges 0 and 0.5), not to the second;
  the lower edge 0 of the first bucket has no bucket; and the direction 30 belongs to the
  wake sector that starts at 0.\<close>

theorem value_bins_half_open_counterexample:
  "power_curve_bins (1 / 2) ! 0 = 0 \<and> power_curve_bins (1 / 2) ! 1 = 1 / 2
   \<and> power_curve_bins (1 / 2) ! 2 = 1
   \<and> pd_cut (power_curve_bins (1 / 2)) False (1 / 2) = Some 0
   \<and> pd_cut (power_curve_bins (1 / 2)) False 0 = None
   \<and> pd_cut_labelled wake_direction_bins True 30 = Some 0"
  by code_simp

section \<open>Properties of the bucket counts\<close>




























section \<open>Properties of the wake and yaw analyses\<close>


























section \<open>The analyses on the example tables\<close>











lemma py_round_of_int: "py_round (of_int z) n = of_int z"
proof -
  have "real_of_int z * 10 ^ n = of_int (z * 10 ^ n)" by simp
  then have f: "\<lfloor>real_of_int z * 10 ^ n\<rfloor> = z * 10 ^ n" by (simp only: floor_of_int)
  show ?thesis by (simp add: py_round_def Let_def f)
qed

lemma py_round_numeral [simp]:
  "py_round (numeral k) n = numeral k" "py_round (- numeral k) n = - numeral k"
  "py_round 1 n = 1" "py_round (- 1) n = - 1" "py_round 0 n = 0"
  using py_round_of_int [of "numeral k" n] py_round_of_int [of "- numeral k" n]
    py_round_of_int [of 1 n] py_round_of_int [of "- 1" n] py_round_of_int [of 0 n]
  by simp_all



















text \<open>
  Claim C2 at its example: three rows with powers 100, 200 and 300 kW at 10-minute spacing.
  The electrical-losses and gross-energy analyses compute 100 kWh; the AEP analysis takes
  the bare power sum, 600, as its total energy in kWh.
\<close>

theorem energy_totals_three_rows:
  "turbine_energy_kwh three_rows = 100
   \<and> operational_energy_kwh three_rows = 100
   \<and> total_energy_kwh three_rows = 600"
  by (simp add: turbine_energy_kwh_def operational_energy_kwh_def total_energy_kwh_def
      normal_df_def series_sum_def three_rows_def)

section \<open>Properties of the loaders, the cache and the entry point\<close>














lemma run_analysis_unfold:
  "run_analysis openoa_available clk request files cache =
     (if \<not> openoa_available then (Inl ServiceUnavailable, cache)
      else
        (case fst (if analysis_type request = ''monte_carlo_aep'' \<or> analysis_type request = ''aep'' then run_aep_analysis (case parameters request of None \<Rightarrow> [] | Some p \<Rightarrow> p) files cache
      else if analysis_type request = ''electrical_losses'' then run_electrical_losses_analysis (case parameters request of None \<Rightarrow> [] | Some p \<Rightarrow> p) files cache
      else if analysis_type request = ''wake_losses'' then run_wake_losses_analysis (case parameters request of None \<Rightarrow> [] | Some p \<Rightarrow> p) files cache
      else if analysis_type request = ''turbine_gross_energy'' then run_turbine_gross_energy_analysis (case parameters request of None \<Rightarrow> [] | Some p \<Rightarrow> p) files cache
      else if analysis_type request = ''yaw_misalignment'' then run_yaw_misalignment_analysis (case parameters request of None \<Rightarrow> [] | Some p \<Rightarrow> p) files cache
      else if analysis_type request = ''eya_gap'' then run_eya_gap_analysis (case parameters request of None \<Rightarrow> [] | Some p \<Rightarrow> p) files cache
      else (Inl (UnknownAnalysis (analysis_type request)), cache)) of
           Inl e \<Rightarrow> Inl (AnalysisFailed e)
         | Inr res \<Rightarrow>
             Inr \<lparr>status = ''success'',
                   response_analysis_type = analysis_type request,
                   results = res,
                   response_timestamp = response_time clk,
                   message = ''Analysis completed successfully using real OpenOA data'',
                   execution_time_seconds = py_round (end_time clk - start_time clk) 2\<rparr>,
         snd (if analysis_type request = ''monte_carlo_aep'' \<or> analysis_type request = ''aep'' then run_aep_analysis (case parameters request of None \<Rightarrow> [] | Some p \<Rightarrow> p) files cache
      else if analysis_type request = ''electrical_losses'' then run_electrical_losses_analysis (case parameters request of None \<Rightarrow> [] | Some p \<Rightarrow> p) files cache
      else if analysis_type request = ''wake_losses'' then run_wake_losses_analysis (case parameters request of None \<Rightarrow> [] | Some p \<Rightarrow> p) files cache
      else if analysis_type request = ''turbine_gross_energy'' then run_turbine_gross_energy_analysis (case parameters request of None \<Rightarrow> [] | Some p \<Rightarrow> p) files cache
      else if analysis_type request = ''yaw_misalignment'' then run_yaw_misalignment_analysis (case parameters request of None \<Rightarrow> [] | Some p \<Rightarrow> p) files cache
      else if analysis_type request = ''eya_gap'' then run_eya_gap_analysis (case parameters request of None \<Rightarrow> [] | Some p \<Rightarrow> p) files cache
      else (Inl (UnknownAnalysis (analysis_type request)), cache))))"
  by (simp add: run_analysis_def Let_def split: prod.splits sum.splits)










text \<open>
  Claim C10. A request with another \<^verbatim>\<open>parameters\<close> field has the same outcome and
  leaves the same cache, and each of the six analyses returns the same for any two values
  of its argument \<^verbatim>\<open>params\<close>.
\<close>

theorem parameters_ignored:
  "run_analysis openoa_available clk (request\<lparr>parameters := p\<rparr>) files cache
     = run_analysis openoa_available clk request files cache
   \<and> run_aep_analysis params files cache = run_aep_analysis params' files cache
   \<and> run_electrical_losses_analysis params files cache
       = run_electrical_losses_analysis params' files cache
   \<and> run_wake_losses_analysis params files cache = run_wake_losses_analysis params' files cache
   \<and> run_turbine_gross_energy_analysis params files cache
       = run_turbine_gross_energy_analysis params' files cache
   \<and> run_yaw_misalignment_analysis params files cache
       = run_yaw_misalignment_analysis params' files cache
   \<and> run_eya_gap_analysis params files cache = run_eya_gap_analysis params' files cache"
proof -
  have a: "run_aep_analysis q files c = run_aep_analysis [] files c"
    and b: "run_electrical_losses_analysis q files c = run_electrical_losses_analysis [] files c"
    and w: "run_wake_losses_analysis q files c = run_wake_losses_analysis [] files c"
    and g: "run_turbine_gross_energy_analysis q files c = run_turbine_gross_energy_analysis [] files c"
    and y: "run_yaw_misalignment_analysis q files c = run_yaw_misalignment_analysis [] files c"
    and e: "run_eya_gap_analysis q files c = run_eya_gap_analysis [] files c" for q c
    by (simp_all add: run_aep_analysis_def run_electrical_losses_analysis_def
        run_wake_losses_analysis_def run_turbine_gross_energy_analysis_def
        run_yaw_misalignment_analysis_def run_eya_gap_analysis_def)
  have r: "run_analysis openoa_available clk (request\<lparr>parameters := p\<rparr>) files cache
     = run_analysis openoa_available clk request files cache"
    unfolding run_analysis_unfold
    by (simp add: a [of "case p of None \<Rightarrow> [] | Some q \<Rightarrow> q"]
        a [of "case parameters request of None \<Rightarrow> [] | Some q \<Rightarrow> q"]
        b [of "case p of None \<Rightarrow> [] | Some q \<Rightarrow> q"]
        b [of "case parameters request of None \<Rightarrow> [] | Some q \<Rightarrow> q"]
        w [of "case p of None \<Rightarrow> [] | Some q \<Rightarrow> q"]
        w [of "case parameters request of None \<Rightarrow> [] | Some q \<Rightarrow> q"]
        g [of "case p of None \<Rightarrow> [] | Some q \<Rightarrow> q"]
        g [of "case parameters request of None \<Rightarrow> [] | Some q \<Rightarrow> q"]
        y [of "case p of None \<Rightarrow> [] | Some q \<Rightarrow> q"]
        y [of "case parameters request of None \<Rightarrow> [] | Some q \<Rightarrow> q"]
        e [of "case p of None \<Rightarrow> [] | Some q \<Rightarrow> q"]
        e [of "case parameters request of None \<Rightarrow> [] | Some q \<Rightarrow> q"]
        split: sum.splits)
  show ?thesis
    using r a [of params] a [of params'] b [of params] b [of params'] w [of params] w [of params']
      g [of params] g [of params'] y [of params] y [of params'] e [of params] e [of params']
    by simp
qed


lemma to_datetime_coerce:
  "to_datetime Coerce col =
     Inr (map (\<lambda>c. case c of Timestamp_text t \<Rightarrow> Some t | Unparseable_text \<Rightarrow> None) col)"
  by (simp add: to_datetime_def)

lemma load_scada_data_cases:
  "load_scada_data files =
     (case scada_file files of
        None \<Rightarrow> Inl (FileNotFoundError ''la-haute-borne-data-2014-2015.csv'')
      | Some Malformed \<Rightarrow> Inl ParserError
      | Some (Csv df) \<Rightarrow>
          if ''Date_time'' \<notin> set (columns df) then Inl (KeyError ''Date_time'')
          else Inr (scada_with_times (frame_rows df)
                 (map (\<lambda>r. case Date_time r of Timestamp_text t \<Rightarrow> Some t | Unparseable_text \<Rightarrow> None)
                    (frame_rows df))))"
  by (simp add: load_scada_data_def read_csv_def to_datetime_coerce comp_def
      split: option.splits csv_file.splits)

lemma load_plant_data_cases:
  "load_plant_data files =
     (case plant_file files of
        None \<Rightarrow> Inl (FileNotFoundError ''plant_data.csv'')
      | Some Malformed \<Rightarrow> Inl ParserError
      | Some (Csv df) \<Rightarrow>
          if ''time_utc'' \<notin> set (columns df) then Inl (KeyError ''time_utc'')
          else Inr (plant_with_times (frame_rows df)
                 (map (\<lambda>r. case time_utc r of Timestamp_text t \<Rightarrow> Some t | Unparseable_text \<Rightarrow> None)
                    (frame_rows df))))"
  by (simp add: load_plant_data_def read_csv_def to_datetime_coerce comp_def
      split: option.splits csv_file.splits)

lemma load_era5_data_cases:
  "load_era5_data files =
     (case era5_file files of
        None \<Rightarrow> Inl (FileNotFoundError ''era5_wind_la_haute_borne.csv'')
      | Some Malformed \<Rightarrow> Inl ParserError
      | Some (Csv df) \<Rightarrow>
          if ''datetime'' \<notin> set (columns df) then Inl (KeyError ''datetime'')
          else Inr (era5_with_times (frame_rows df)
                 (map (\<lambda>r. case datetime r of Timestamp_text t \<Rightarrow> Some t | Unparseable_text \<Rightarrow> None)
                    (frame_rows df))))"
  by (simp add: load_era5_data_def read_csv_def to_datetime_coerce comp_def
      split: option.splits csv_file.splits)

lemma load_merra2_data_cases:
  "load_merra2_data files =
     (case merra2_file files of
        None \<Rightarrow> Inl (FileNotFoundError ''merra2_la_haute_borne.csv'')
      | Some Malformed \<Rightarrow> Inl ParserError
      | Some (Csv df) \<Rightarrow>
          if ''datetime'' \<notin> set (columns df) then Inl (KeyError ''datetime'')
          else Inr (era5_with_times (frame_rows df)
                 (map (\<lambda>r. case datetime r of Timestamp_text t \<Rightarrow> Some t | Unparseable_text \<Rightarrow> None)
                    (frame_rows df))))"
  by (simp add: load_merra2_data_def read_csv_def to_datetime_coerce comp_def
      split: option.splits csv_file.splits)

lemma load_asset_data_cases:
  "load_asset_data files =
     (case asset_file files of
        None \<Rightarrow> Inl (FileNotFoundError ''la-haute-borne_asset_table.csv'')
      | Some Malformed \<Rightarrow> Inl ParserError
      | Some (Csv df) \<Rightarrow> Inr (frame_rows df))"
  by (simp add: load_asset_data_def read_csv_def split: option.splits csv_file.splits)

text \<open>
  Claim C8. Each of the five loaders raises \<^verbatim>\<open>FileNotFoundError\<close> exactly when its
  file is absent. A file that is present raises another exception or none: the parser's
  error when it cannot be parsed, \<^verbatim>\<open>KeyError\<close> when the SCADA file has no time column.
  Otherwise the SCADA table is returned with one row per row of the file, in order; a time
  cell that does not parse is \<^verbatim>\<open>NaT\<close> in its row, a time cell that parses is its
  timestamp, and the other cells of every row are unchanged.
\<close>

theorem loaders_not_found_iff:
  "((\<exists>n. load_scada_data files = Inl (FileNotFoundError n)) \<longleftrightarrow> scada_file files = None)
   \<and> ((\<exists>n. load_plant_data files = Inl (FileNotFoundError n)) \<longleftrightarrow> plant_file files = None)
   \<and> ((\<exists>n. load_asset_data files = Inl (FileNotFoundError n)) \<longleftrightarrow> asset_file files = None)
   \<and> ((\<exists>n. load_era5_data files = Inl (FileNotFoundError n)) \<longleftrightarrow> era5_file files = None)
   \<and> ((\<exists>n. load_merra2_data files = Inl (FileNotFoundError n)) \<longleftrightarrow> merra2_file files = None)
   \<and> (scada_file files = Some Malformed \<longrightarrow> load_scada_data files = Inl ParserError)
   \<and> (\<forall>df. scada_file files = Some (Csv df) \<and> ''Date_time'' \<notin> set (columns df) \<longrightarrow>
          load_scada_data files = Inl (KeyError ''Date_time''))
   \<and> (\<forall>df. scada_file files = Some (Csv df) \<and> ''Date_time'' \<in> set (columns df) \<longrightarrow>
          (\<exists>rows. load_scada_data files = Inr rows
             \<and> length rows = length (frame_rows df)
             \<and> (\<forall>i < length rows.
                   Date_time (rows ! i) =
                     (case Date_time (frame_rows df ! i) of
                        Timestamp_text t \<Rightarrow> Some t | Unparseable_text \<Rightarrow> None)
                   \<and> Wind_turbine_name (rows ! i) = Wind_turbine_name (frame_rows df ! i)
                   \<and> P_avg (rows ! i) = P_avg (frame_rows df ! i)
                   \<and> Ws_avg (rows ! i) = Ws_avg (frame_rows df ! i)
                   \<and> Wa_avg (rows ! i) = Wa_avg (frame_rows df ! i)
                   \<and> Va_avg (rows ! i) = Va_avg (frame_rows df ! i))))"
proof -
  have s: "(\<exists>n. load_scada_data files = Inl (FileNotFoundError n)) \<longleftrightarrow> scada_file files = None"
    unfolding load_scada_data_cases by (auto split: option.splits csv_file.splits)
  have p: "(\<exists>n. load_plant_data files = Inl (FileNotFoundError n)) \<longleftrightarrow> plant_file files = None"
    unfolding load_plant_data_cases by (auto split: option.splits csv_file.splits)
  have a: "(\<exists>n. load_asset_data files = Inl (FileNotFoundError n)) \<longleftrightarrow> asset_file files = None"
    unfolding load_asset_data_cases by (auto split: option.splits csv_file.splits)
  have e: "(\<exists>n. load_era5_data files = Inl (FileNotFoundError n)) \<longleftrightarrow> era5_file files = None"
    unfolding load_era5_data_cases by (auto split: option.splits csv_file.splits)
  have m: "(\<exists>n. load_merra2_data files = Inl (FileNotFoundError n)) \<longleftrightarrow> merra2_file files = None"
    unfolding load_merra2_data_cases by (auto split: option.splits csv_file.splits)
  have u: "scada_file files = Some Malformed \<longrightarrow> load_scada_data files = Inl ParserError"
    unfolding load_scada_data_cases by simp
  have k: "\<forall>df. scada_file files = Some (Csv df) \<and> ''Date_time'' \<notin> set (columns df) \<longrightarrow>
          load_scada_data files = Inl (KeyError ''Date_time'')"
    unfolding load_scada_data_cases by simp
  have r: "\<forall>df. scada_file files = Some (Csv df) \<and> ''Date_time'' \<in> set (columns df) \<longrightarrow>
          (\<exists>rows. load_scada_data files = Inr rows
             \<and> length rows = length (frame_rows df)
             \<and> (\<forall>i < length rows.
                   Date_time (rows ! i) =
                     (case Date_time (frame_rows df ! i) of
                        Timestamp_text t \<Rightarrow> Some t | Unparseable_text \<Rightarrow> None)
                   \<and> Wind_turbine_name (rows ! i) = Wind_turbine_name (frame_rows df ! i)
                   \<and> P_avg (rows ! i) = P_avg (frame_rows df ! i)
                   \<and> Ws_avg (rows ! i) = Ws_avg (frame_rows df ! i)
                   \<and> Wa_avg (rows ! i) = Wa_avg (frame_rows df ! i)
                   \<and> Va_avg (rows ! i) = Va_avg (frame_rows df ! i)))"
    unfolding load_scada_data_cases by (simp add: scada_with_times_def)
  show ?thesis using s p a e m u k r by blast
qed

text \<open>Claim C8 on example files: a SCADA file whose first time cell does not parse loads
  with \<^verbatim>\<open>NaT\<close> in its first row; a plant file that cannot be parsed and an asset file
  that is absent raise different exceptions; a SCADA file without its time column raises
  \<^verbatim>\<open>KeyError\<close>.\<close>

theorem loaders_not_found_iff_witness:
  "load_scada_data two_row_files =
     Inr [\<lparr>Wind_turbine_name = ''T1'', Date_time = None, P_avg = 100, Ws_avg = 6, Wa_avg = 10, Va_avg = 0\<rparr>,
          \<lparr>Wind_turbine_name = ''T1'', Date_time = Some 600000000000, P_avg = 200, Ws_avg = 6,
            Wa_avg = 10, Va_avg = 0\<rparr>]
   \<and> load_plant_data two_row_files = Inl ParserError
   \<and> load_asset_data two_row_files = Inl (FileNotFoundError ''la-haute-borne_asset_table.csv'')
   \<and> asset_file two_row_files = None
   \<and> load_scada_data no_time_column_files = Inl (KeyError ''Date_time'')"
proof -
  have a: "\<exists>n. load_asset_data two_row_files = Inl (FileNotFoundError n)"
    using loaders_not_found_iff [of two_row_files] by (simp add: two_row_files_def)
  have k: "load_scada_data no_time_column_files = Inl (KeyError ''Date_time'')"
    using loaders_not_found_iff [of no_time_column_files] by (simp add: no_time_column_files_def)
  have s: "load_scada_data two_row_files =
     Inr [\<lparr>Wind_turbine_name = ''T1'', Date_time = None, P_avg = 100, Ws_avg = 6, Wa_avg = 10, Va_avg = 0\<rparr>,
          \<lparr>Wind_turbine_name = ''T1'', Date_time = Some 600000000000, P_avg = 200, Ws_avg = 6,
            Wa_avg = 10, Va_avg = 0\<rparr>]"
    by (simp add: load_scada_data_cases two_row_files_def scada_with_times_def)
  have p: "load_plant_data two_row_files = Inl ParserError"
    by (simp add: load_plant_data_cases two_row_files_def)
  have f: "load_asset_data two_row_files = Inl (FileNotFoundError ''la-haute-borne_asset_table.csv'')"
    using a by (simp add: load_asset_data_cases two_row_files_def)
  show ?thesis using s p f k by (simp add: two_row_files_def)
qed

end
